theory Spec2Isabelle
  imports Main
begin

section \<open>Derivative lookup: differentiability witnesses of a SIL module\<close>

text \<open>
  A shallow embedding of \<^verbatim>\<open>lib/SILOptimizer/Utils/Differentiation/DerivativeLookup.cpp\<close>:
  \<^verbatim>\<open>findAbstractFunctionDecl\<close>, \<^verbatim>\<open>getExactDifferentiabilityWitness\<close>,
  \<^verbatim>\<open>getMinimalASTDifferentiableAttr\<close> and
  \<^verbatim>\<open>getOrCreateMinimalASTDifferentiabilityWitness\<close>.
  The index subsets, the module's witness tables and the witness constructor are declared in
  headers and files that are not part of this source file; they are modelled below from the
  specification, each under a comment that says so.
\<close>

subsection \<open>Faults\<close>

text \<open>
  The ways a call can stop other than by returning. A null pointer returned by the source is
  not a fault: it is the value \<open>None\<close>.
  \<^item> \<open>ShrinkingCapacity\<close>: \<^verbatim>\<open>extendingCapacity\<close> asked for a capacity below the set's own;
  \<^item> \<open>CapacityMismatch\<close>: \<^verbatim>\<open>isSupersetOf\<close> on two sets of different capacity;
  \<^item> \<open>DefinitionWithoutWitness\<close>: the \<^verbatim>\<open>assert(original->isExternalDeclaration() && ...)\<close>
    of \<^verbatim>\<open>getOrCreateMinimalASTDifferentiabilityWitness\<close> failed.
  The model is of a build in which assertions are checked: a failed assertion stops the call.
\<close>

datatype fault = ShrinkingCapacity | CapacityMismatch | DefinitionWithoutWitness

subsection \<open>Index subsets\<close>

text \<open>
  Modelled from the spec: the class \<^verbatim>\<open>IndexSubset\<close> (the spec's IndexSet) is missing from the
  source. The spec: a fixed-capacity bit-set over positions; membership never exceeds the
  capacity; two sets are equal iff they have the same capacity and the same members. A bit
  vector whose length is the capacity has exactly these properties: bit \<open>i\<close> is set iff \<open>i\<close> is a
  member. Index subsets are uniqued by the source's context, so the pointer comparisons of the
  source are comparisons of values here.
\<close>

type_synonym IndexSubset = "bool list"

text \<open>Modelled from the spec: \<^verbatim>\<open>getCapacity()\<close>, the size of the addressable range.\<close>

definition getCapacity :: "IndexSubset \<Rightarrow> nat" where
  "getCapacity s = length s"

text \<open>Modelled from the spec: \<^verbatim>\<open>contains(i)\<close>, membership of a position.\<close>

definition contains :: "IndexSubset \<Rightarrow> nat \<Rightarrow> bool" where
  "contains s i = (i < length s \<and> s ! i)"

text \<open>Modelled from the spec: \<^verbatim>\<open>numIndices()\<close>, the population count.\<close>

definition getNumIndices :: "IndexSubset \<Rightarrow> nat" where
  "getNumIndices s = length (filter (\<lambda>b. b) s)"

text \<open>
  Modelled from the spec: \<^verbatim>\<open>extendingCapacity(newCapacity)\<close> zero-pads, never removes members,
  is only valid when \<open>newCapacity >= capacity\<close>, and fails if asked to shrink capacity.
\<close>

definition extendingCapacity :: "IndexSubset \<Rightarrow> nat \<Rightarrow> fault + IndexSubset" where
  "extendingCapacity s newCapacity =
     (if newCapacity < getCapacity s then Inl ShrinkingCapacity
      else Inr (s @ replicate (newCapacity - getCapacity s) False))"

text \<open>
  Modelled from the spec: \<^verbatim>\<open>isSupersetOf(other)\<close> requires equal capacity and fails when the
  capacities differ; otherwise every member of \<open>other\<close> is a member of the receiver.
\<close>

definition isSupersetOf :: "IndexSubset \<Rightarrow> IndexSubset \<Rightarrow> fault + bool" where
  "isSupersetOf s other =
     (if getCapacity s \<noteq> getCapacity other then Inl CapacityMismatch
      else Inr (list_all (\<lambda>(mine, theirs). theirs \<longrightarrow> mine) (zip s other)))"

subsection \<open>Declarations, attributes and functions\<close>

text \<open>
  A generic signature is an opaque handle that is only compared and passed on.
\<close>

type_synonym GenericSignature = nat

text \<open>
  A \<^verbatim>\<open>@differentiable\<close> attribute. The source reads two things from it: its derivative generic
  signature, and its parameter indices lowered against the type of the function that carries
  it (\<^verbatim>\<open>autodiff::getLoweredParameterIndices(attr->getParameterIndices(), ...)\<close>). The lowering
  function is not part of this source file; an attribute belongs to one function declaration,
  so the lowered indices are a field of the attribute here.
\<close>

record DifferentiableAttr =
  getLoweredParameterIndices :: IndexSubset
  getDerivativeGenericSignature :: GenericSignature

text \<open>
  Of an \<^verbatim>\<open>AbstractFunctionDecl\<close> the source reads its \<^verbatim>\<open>DifferentiableAttr\<close>s, in the order
  of \<^verbatim>\<open>getAttrs().getAttributes<DifferentiableAttr>()\<close>.
\<close>

record AbstractFunctionDecl =
  getDifferentiableAttrs :: "DifferentiableAttr list"

text \<open>
  A declaration is an \<^verbatim>\<open>AbstractFunctionDecl\<close> or some other kind of declaration
  (\<^verbatim>\<open>dyn_cast<AbstractFunctionDecl>\<close> gives null on the latter). A declaration context is a
  declaration or not (\<^verbatim>\<open>getAsDecl()\<close> gives null).
\<close>

datatype Decl = FunctionDecl AbstractFunctionDecl | OtherDecl

record DeclContext =
  getAsDecl :: "Decl option"

record SILFunction =
  getName :: string
  getDeclContext :: "DeclContext option"
  isExternalDeclaration :: bool

fun dyn_cast_AbstractFunctionDecl :: "Decl \<Rightarrow> AbstractFunctionDecl option" where
  "dyn_cast_AbstractFunctionDecl (FunctionDecl afd) = Some afd"
| "dyn_cast_AbstractFunctionDecl OtherDecl = None"

definition findAbstractFunctionDecl :: "SILFunction \<Rightarrow> AbstractFunctionDecl option" where
  "findAbstractFunctionDecl F =
     (case getDeclContext F of
        None \<Rightarrow> None
      | Some DC \<Rightarrow>
          (case getAsDecl DC of
             None \<Rightarrow> None
           | Some D \<Rightarrow> dyn_cast_AbstractFunctionDecl D))"

subsection \<open>Witnesses and the module's registry\<close>

record AutoDiffConfig =
  parameterIndices :: IndexSubset
  resultIndices :: IndexSubset
  derivativeGenericSignature :: GenericSignature

text \<open>
  The linkage kinds of SIL. The source names one of them, \<^verbatim>\<open>SILLinkage::PublicExternal\<close>.
\<close>

datatype SILLinkage =
  Public | Hidden | Shared | Private
  | PublicExternal | HiddenExternal | SharedExternal | PrivateExternal

text \<open>
  Modelled from the spec: the class \<^verbatim>\<open>SILDifferentiabilityWitness\<close> is missing from the source.
  The spec: a witness is \<open>{functionIdentity, config, state: Declaration | Definition, linkage}\<close>.
\<close>

record SILDifferentiabilityWitness =
  getLinkage :: SILLinkage
  getOriginalFunction :: string
  getConfig :: AutoDiffConfig
  isDeclaration :: bool

definition getParameterIndices :: "SILDifferentiabilityWitness \<Rightarrow> IndexSubset" where
  "getParameterIndices w = parameterIndices (getConfig w)"

definition getResultIndices :: "SILDifferentiabilityWitness \<Rightarrow> IndexSubset" where
  "getResultIndices w = resultIndices (getConfig w)"

text \<open>
  Modelled from the spec: the witness tables of \<^verbatim>\<open>SILModule\<close> are missing from the source. The
  spec: the registry owns every witness for its whole lifetime, is keyed by
  \<open>(functionIdentity, config)\<close>, and two configs are the same iff parameter indices, result
  indices and derivative signature all compare equal. The module holds its witnesses in the
  order of their registration; a pointer to a witness is its position in that list, so two
  pointers are equal iff they denote the same witness object.
\<close>

record SILModule =
  differentiabilityWitnesses :: "SILDifferentiabilityWitness list"

type_synonym WitnessPtr = nat

type_synonym SILDifferentiabilityWitnessKey = "string \<times> AutoDiffConfig"

definition getKey :: "SILDifferentiabilityWitness \<Rightarrow> SILDifferentiabilityWitnessKey" where
  "getKey w = (getOriginalFunction w, getConfig w)"

text \<open>
  Modelled from the spec: \<^verbatim>\<open>SILModule::lookUpDifferentiabilityWitness(key)\<close>, the lookup by the
  registry's key \<open>(functionIdentity, config)\<close>; the first (only, by the registry's invariant)
  witness registered under the key, or null.
\<close>

definition lookUpDifferentiabilityWitness ::
    "SILModule \<Rightarrow> SILDifferentiabilityWitnessKey \<Rightarrow> WitnessPtr option" where
  "lookUpDifferentiabilityWitness module key =
     List.find (\<lambda>p. getKey (differentiabilityWitnesses module ! p) = key)
       [0 ..< length (differentiabilityWitnesses module)]"

text \<open>
  Modelled from the spec: \<^verbatim>\<open>SILModule::lookUpDifferentiabilityWitnessesForFunction(name)\<close>, the
  witnesses previously registered for the function, in registration order.
\<close>

definition lookUpDifferentiabilityWitnessesForFunction ::
    "SILModule \<Rightarrow> string \<Rightarrow> WitnessPtr list" where
  "lookUpDifferentiabilityWitnessesForFunction module name =
     filter (\<lambda>p. getOriginalFunction (differentiabilityWitnesses module ! p) = name)
       [0 ..< length (differentiabilityWitnesses module)]"

text \<open>
  Modelled from the spec: \<^verbatim>\<open>SILDifferentiabilityWitness::createDeclaration\<close> constructs a new
  witness in Declaration state with the linkage, function and configuration it is given, and
  registers it in the module. It returns the pointer to the new witness and the new module.
\<close>

definition createDeclaration ::
    "SILModule \<Rightarrow> SILLinkage \<Rightarrow> SILFunction \<Rightarrow> IndexSubset \<Rightarrow> IndexSubset \<Rightarrow> GenericSignature
      \<Rightarrow> WitnessPtr \<times> SILModule" where
  "createDeclaration module linkage original paramIndices resIndices derivativeGenSig =
     (length (differentiabilityWitnesses module),
      module\<lparr>differentiabilityWitnesses :=
        differentiabilityWitnesses module @
          [\<lparr>getLinkage = linkage,
            getOriginalFunction = getName original,
            getConfig = \<lparr>parameterIndices = paramIndices, resultIndices = resIndices,
                         derivativeGenericSignature = derivativeGenSig\<rparr>,
            isDeclaration = True\<rparr>]\<rparr>)"

subsection \<open>The functions of the source file\<close>

text \<open>
  \<^verbatim>\<open>getExactDifferentiabilityWitness\<close>: the first witness of the function whose parameter and
  result indices are the given ones; the derivative generic signature is not compared.
\<close>

definition getExactDifferentiabilityWitness ::
    "SILModule \<Rightarrow> SILFunction \<Rightarrow> IndexSubset \<Rightarrow> IndexSubset \<Rightarrow> WitnessPtr option" where
  "getExactDifferentiabilityWitness module original paramIndices resIndices =
     List.find
       (\<lambda>w. getParameterIndices (differentiabilityWitnesses module ! w) = paramIndices \<and>
            getResultIndices (differentiabilityWitnesses module ! w) = resIndices)
       (lookUpDifferentiabilityWitnessesForFunction module (getName original))"

text \<open>
  The loop of \<^verbatim>\<open>getMinimalASTDifferentiableAttr\<close> over the attributes still to visit. The
  source keeps two variables, \<^verbatim>\<open>minimalAttr\<close> and \<^verbatim>\<open>minimalParameterIndices\<close>; both start
  null and both are assigned in the same branch, so the loop state is one optional pair, and
  the source's test \<^verbatim>\<open>!minimalParameterIndices\<close> is the test for \<open>None\<close>. The condition is
  evaluated in the source's order: the extension of the request first, the superset test on
  its result, and the comparison of the counts only when the superset test is true.
\<close>

fun minimalAttrLoop ::
    "IndexSubset \<Rightarrow> DifferentiableAttr list \<Rightarrow> (DifferentiableAttr \<times> IndexSubset) option
      \<Rightarrow> fault + (DifferentiableAttr \<times> IndexSubset) option" where
  "minimalAttrLoop paramIndices [] minimal = Inr minimal"
| "minimalAttrLoop paramIndices (attr # rest) minimal =
     (let attrParameterIndices = getLoweredParameterIndices attr in
      case extendingCapacity paramIndices (getCapacity attrParameterIndices) of
        Inl f \<Rightarrow> Inl f
      | Inr extended \<Rightarrow>
          (case isSupersetOf attrParameterIndices extended of
             Inl f \<Rightarrow> Inl f
           | Inr superset \<Rightarrow>
               if superset \<and>
                  (case minimal of
                     None \<Rightarrow> True
                   | Some (minimalAttr, minimalParameterIndices) \<Rightarrow>
                       getNumIndices attrParameterIndices < getNumIndices minimalParameterIndices)
               then minimalAttrLoop paramIndices rest (Some (attr, attrParameterIndices))
               else minimalAttrLoop paramIndices rest minimal))"

definition getMinimalASTDifferentiableAttr ::
    "AbstractFunctionDecl \<Rightarrow> IndexSubset
      \<Rightarrow> fault + (DifferentiableAttr \<times> IndexSubset) option" where
  "getMinimalASTDifferentiableAttr original paramIndices =
     minimalAttrLoop paramIndices (getDifferentiableAttrs original) None"

text \<open>
  \<^verbatim>\<open>getOrCreateMinimalASTDifferentiabilityWitness\<close>. The result is a fault, or the returned
  pointer (\<open>None\<close> for null) with the module as the call leaves it.
\<close>

definition getOrCreateMinimalASTDifferentiabilityWitness ::
    "SILModule \<Rightarrow> SILFunction \<Rightarrow> IndexSubset \<Rightarrow> IndexSubset
      \<Rightarrow> fault + (WitnessPtr option \<times> SILModule)" where
  "getOrCreateMinimalASTDifferentiabilityWitness module original paramIndices resIndices =
     (if getCapacity resIndices \<noteq> 1 \<or> \<not> contains resIndices 0 then Inr (None, module)
      else
        case findAbstractFunctionDecl original of
          None \<Rightarrow> Inr (None, module)
        | Some originalAFD \<Rightarrow>
            (case getMinimalASTDifferentiableAttr originalAFD paramIndices of
               Inl f \<Rightarrow> Inl f
             | Inr None \<Rightarrow> Inr (None, module)
             | Inr (Some (minimalAttr, minimalParameterIndices)) \<Rightarrow>
                 (let minimalConfig =
                        \<lparr>parameterIndices = minimalParameterIndices,
                         resultIndices = resIndices,
                         derivativeGenericSignature =
                           getDerivativeGenericSignature minimalAttr\<rparr>
                  in case lookUpDifferentiabilityWitness module
                            (getName original, minimalConfig) of
                       Some existingWitness \<Rightarrow> Inr (Some existingWitness, module)
                     | None \<Rightarrow>
                         if \<not> isExternalDeclaration original
                         then Inl DefinitionWithoutWitness
                         else
                           (case createDeclaration module PublicExternal original
                                   (parameterIndices minimalConfig)
                                   (resultIndices minimalConfig)
                                   (derivativeGenericSignature minimalConfig) of
                              (w, module') \<Rightarrow> Inr (Some w, module')))))"

subsection \<open>Notions used in the statements\<close>

text \<open>
  An attribute covers a request when the request, extended to the capacity of the attribute's
  lowered parameter indices, is a subset of them: the first conjunct of the condition in
  \<^verbatim>\<open>getMinimalASTDifferentiableAttr\<close>. An extension that fails covers nothing.
\<close>

definition coversRequest :: "DifferentiableAttr \<Rightarrow> IndexSubset \<Rightarrow> bool" where
  "coversRequest attr paramIndices =
     (case extendingCapacity paramIndices (getCapacity (getLoweredParameterIndices attr)) of
        Inl f \<Rightarrow> False
      | Inr extended \<Rightarrow> isSupersetOf (getLoweredParameterIndices attr) extended = Inr True)"

text \<open>
  The second conjunct of that condition: there is no candidate yet, or the set has fewer
  indices than the candidate's.
\<close>

definition fewerThanMinimal :: "IndexSubset \<Rightarrow> (DifferentiableAttr \<times> IndexSubset) option \<Rightarrow> bool" where
  "fewerThanMinimal s minimal =
     (case minimal of None \<Rightarrow> True | Some (a, m) \<Rightarrow> getNumIndices s < getNumIndices m)"

text \<open>
  The configuration that \<^verbatim>\<open>getOrCreateMinimalASTDifferentiabilityWitness\<close> builds from the
  result of the search and the requested result indices (\<^verbatim>\<open>minimalConfig\<close>).
\<close>

definition minimalConfigOf :: "DifferentiableAttr \<Rightarrow> IndexSubset \<Rightarrow> IndexSubset \<Rightarrow> AutoDiffConfig" where
  "minimalConfigOf attr idx resIndices = 
     \<lparr>parameterIndices = idx, resultIndices = resIndices,
      derivativeGenericSignature = getDerivativeGenericSignature attr\<rparr>"

text \<open>
  The contract that the source's assertion names: \<^emph>\<open>SILGen should create differentiability
  witnesses for all function definitions with explicit differentiable attributes\<close>. For a
  function that is not an external declaration, every \<^verbatim>\<open>@differentiable\<close> attribute of its
  declaration has a witness registered under the function's name, the attribute's lowered
  parameter indices, the single result \<open>{0}\<close> of capacity 1 and the attribute's derivative
  generic signature.
\<close>

definition witnessesCreatedForDefinition :: "SILModule \<Rightarrow> SILFunction \<Rightarrow> bool" where
  "witnessesCreatedForDefinition module original =
     (\<not> isExternalDeclaration original \<longrightarrow>
        (case findAbstractFunctionDecl original of
           None \<Rightarrow> True
         | Some originalAFD \<Rightarrow>
             list_all
               (\<lambda>attr. lookUpDifferentiabilityWitness module
                         (getName original,
                          \<lparr>parameterIndices = getLoweredParameterIndices attr,
                           resultIndices = [True],
                           derivativeGenericSignature = getDerivativeGenericSignature attr\<rparr>)
                       \<noteq> None)
               (getDifferentiableAttrs originalAFD)))"

subsection \<open>Example inputs\<close>

text \<open>
  The function \<open>g\<close> of the specification's scenario: an external declaration with the one
  attribute \<open>{0,2}\<close> of capacity 3.
\<close>

abbreviation attrG :: DifferentiableAttr where
  "attrG \<equiv> \<lparr>getLoweredParameterIndices = [True, False, True], getDerivativeGenericSignature = 7\<rparr>"

abbreviation funG :: SILFunction where
  "funG \<equiv> \<lparr>getName = ''g'',
            getDeclContext =
              Some \<lparr>getAsDecl = Some (FunctionDecl \<lparr>getDifferentiableAttrs = [attrG]\<rparr>)\<rparr>,
            isExternalDeclaration = True\<rparr>"

text \<open>The same function with a body in this module.\<close>

abbreviation funGDefined :: SILFunction where
  "funGDefined \<equiv> funG\<lparr>isExternalDeclaration := False\<rparr>"

text \<open>A function with no declaration context, and a module with no witnesses.\<close>

abbreviation funSynthesized :: SILFunction where
  "funSynthesized \<equiv> \<lparr>getName = ''h'', getDeclContext = None, isExternalDeclaration = True\<rparr>"

abbreviation emptyModule :: SILModule where
  "emptyModule \<equiv> \<lparr>differentiabilityWitnesses = []\<rparr>"

text \<open>
  The witness of \<open>g\<close> for the parameters \<open>{0,2}\<close>, the result \<open>{0}\<close> and a given derivative
  generic signature, as a declaration, and the module that holds just this witness.
\<close>

abbreviation witnessG :: "GenericSignature \<Rightarrow> SILDifferentiabilityWitness" where
  "witnessG g \<equiv>
     \<lparr>getLinkage = PublicExternal, getOriginalFunction = ''g'',
      getConfig = \<lparr>parameterIndices = [True, False, True], resultIndices = [True],
                   derivativeGenericSignature = g\<rparr>,
      isDeclaration = True\<rparr>"

abbreviation moduleG :: "GenericSignature \<Rightarrow> SILModule" where
  "moduleG g \<equiv> \<lparr>differentiabilityWitnesses = [witnessG g]\<rparr>"

section \<open>The minimal-cover search\<close>

subsection \<open>The loop\<close>

lemma minimalAttrLoop_step:
  assumes "minimalAttrLoop r (x # xs) best = Inr res"
  shows "minimalAttrLoop r xs
           (if coversRequest x r \<and> fewerThanMinimal (getLoweredParameterIndices x) best
            then Some (x, getLoweredParameterIndices x) else best) = Inr res"
  using assms
  by (auto simp: coversRequest_def fewerThanMinimal_def Let_def
           split: sum.splits if_splits option.splits)

lemma minimalAttrLoop_char:
  "minimalAttrLoop r xs best = Inr res \<Longrightarrow>
     (res = best \<and>
        (\<forall>x\<in>set xs. coversRequest x r \<longrightarrow> \<not> fewerThanMinimal (getLoweredParameterIndices x) best))
   \<or> (\<exists>pre a post. xs = pre @ a # post \<and> res = Some (a, getLoweredParameterIndices a) \<and>
         coversRequest a r \<and> fewerThanMinimal (getLoweredParameterIndices a) best \<and>
         (\<forall>x\<in>set pre. coversRequest x r \<longrightarrow>
            getNumIndices (getLoweredParameterIndices a) < getNumIndices (getLoweredParameterIndices x)) \<and>
         (\<forall>x\<in>set post. coversRequest x r \<longrightarrow>
            getNumIndices (getLoweredParameterIndices a) \<le> getNumIndices (getLoweredParameterIndices x)))"
proof (induction xs arbitrary: best)
  case Nil
  then show ?case by simp
next
  case (Cons x xs)
  let ?lx = "getLoweredParameterIndices x"
  let ?best' = "if coversRequest x r \<and> fewerThanMinimal ?lx best then Some (x, ?lx) else best"
  have run: "minimalAttrLoop r xs ?best' = Inr res"
    using minimalAttrLoop_step [OF Cons.prems] .
  from Cons.IH [OF run] show ?case
  proof (elim disjE exE conjE)
    assume same: "res = ?best'"
      and rest: "\<forall>y\<in>set xs. coversRequest y r \<longrightarrow> \<not> fewerThanMinimal (getLoweredParameterIndices y) ?best'"
    show ?thesis
    proof (cases "coversRequest x r \<and> fewerThanMinimal ?lx best")
      case True
      with same rest have "x # xs = [] @ x # xs \<and> res = Some (x, ?lx) \<and> coversRequest x r \<and>
          fewerThanMinimal ?lx best \<and>
          (\<forall>y\<in>set xs. coversRequest y r \<longrightarrow> getNumIndices ?lx \<le> getNumIndices (getLoweredParameterIndices y))"
        by (auto simp: fewerThanMinimal_def)
      then show ?thesis by (intro disjI2) (metis empty_iff list.set(1))
    next
      case False
      with same rest show ?thesis by auto
    qed
  next
    fix pre a post
    assume split: "xs = pre @ a # post"
      and res: "res = Some (a, getLoweredParameterIndices a)"
      and cov: "coversRequest a r"
      and fewer: "fewerThanMinimal (getLoweredParameterIndices a) ?best'"
      and before: "\<forall>y\<in>set pre. coversRequest y r \<longrightarrow>
            getNumIndices (getLoweredParameterIndices a) < getNumIndices (getLoweredParameterIndices y)"
      and after: "\<forall>y\<in>set post. coversRequest y r \<longrightarrow>
            getNumIndices (getLoweredParameterIndices a) \<le> getNumIndices (getLoweredParameterIndices y)"
    have fewer_best: "fewerThanMinimal (getLoweredParameterIndices a) best"
      using fewer by (auto simp: fewerThanMinimal_def split: if_splits option.splits)
    have at_x: "coversRequest x r \<longrightarrow>
        getNumIndices (getLoweredParameterIndices a) < getNumIndices ?lx"
      using fewer by (auto simp: fewerThanMinimal_def split: if_splits option.splits)
    have "x # xs = (x # pre) @ a # post" using split by simp
    moreover have "\<forall>y\<in>set (x # pre). coversRequest y r \<longrightarrow>
            getNumIndices (getLoweredParameterIndices a) < getNumIndices (getLoweredParameterIndices y)"
      using before at_x by simp
    ultimately show ?thesis using res cov fewer_best after by blast
  qed
qed


lemma getCapacity_extended:
  "extendingCapacity s n = Inr ext \<Longrightarrow> getCapacity ext = n"
  by (auto simp: extendingCapacity_def getCapacity_def split: if_splits)

lemma minimalAttrLoop_returns:
  "\<forall>a\<in>set xs. getCapacity r \<le> getCapacity (getLoweredParameterIndices a) \<Longrightarrow>
     \<exists>res. minimalAttrLoop r xs best = Inr res"
proof (induction xs arbitrary: best)
  case Nil
  show ?case by simp
next
  case (Cons x xs)
  let ?lx = "getLoweredParameterIndices x"
  obtain ext where ext: "extendingCapacity r (getCapacity ?lx) = Inr ext"
    using Cons.prems by (auto simp: extendingCapacity_def)
  have "getCapacity ext = getCapacity ?lx"
    using ext by (rule getCapacity_extended)
  then obtain sup where sup: "isSupersetOf ?lx ext = Inr sup"
    by (auto simp: isSupersetOf_def)
  from Cons.prems have rest: "\<forall>a\<in>set xs. getCapacity r \<le> getCapacity (getLoweredParameterIndices a)"
    by simp
  show ?case
    using ext sup Cons.IH [OF rest] by (simp add: Let_def)
qed

lemma minimalAttrLoop_fault:
  "minimalAttrLoop r xs best = Inl f \<Longrightarrow>
     f = ShrinkingCapacity \<and>
     (\<exists>a\<in>set xs. getCapacity (getLoweredParameterIndices a) < getCapacity r)"
proof (induction xs arbitrary: best)
  case Nil
  then show ?case by simp
next
  case (Cons x xs)
  let ?lx = "getLoweredParameterIndices x"
  show ?case
  proof (cases "getCapacity ?lx < getCapacity r")
    case True
    then have "minimalAttrLoop r (x # xs) best = Inl ShrinkingCapacity"
      by (simp add: extendingCapacity_def)
    with Cons.prems True show ?thesis by simp
  next
    case False
    then obtain ext where ext: "extendingCapacity r (getCapacity ?lx) = Inr ext"
      by (auto simp: extendingCapacity_def)
    have "getCapacity ext = getCapacity ?lx"
      using ext by (rule getCapacity_extended)
    then obtain sup where sup: "isSupersetOf ?lx ext = Inr sup"
      by (auto simp: isSupersetOf_def)
    from Cons.prems ext sup obtain best' where "minimalAttrLoop r xs best' = Inl f"
      by (auto simp: Let_def split: if_splits)
    from Cons.IH [OF this] show ?thesis by auto
  qed
qed

lemma coversRequest_members:
  assumes "coversRequest a r"
  shows "getCapacity r \<le> getCapacity (getLoweredParameterIndices a) \<and>
         (\<forall>i. contains r i \<longrightarrow> contains (getLoweredParameterIndices a) i)"
proof -
  let ?la = "getLoweredParameterIndices a"
  from assms have cap: "length r \<le> length ?la"
    and all: "list_all (\<lambda>(mine, theirs). theirs \<longrightarrow> mine)
                (zip ?la (r @ replicate (length ?la - length r) False))"
    by (auto simp: coversRequest_def extendingCapacity_def isSupersetOf_def getCapacity_def
             split: if_splits)
  have "contains ?la i" if "contains r i" for i
  proof -
    from that have i: "i < length r" and ri: "r ! i" by (auto simp: contains_def)
    let ?ext = "r @ replicate (length ?la - length r) False"
    have len: "i < length (zip ?la ?ext)" using i cap by simp
    have "(zip ?la ?ext) ! i \<in> set (zip ?la ?ext)" using len by (rule nth_mem)
    with all have "case (zip ?la ?ext) ! i of (mine, theirs) \<Rightarrow> theirs \<longrightarrow> mine"
      by (simp add: list_all_iff)
    moreover have "(zip ?la ?ext) ! i = (?la ! i, r ! i)"
      using i cap by (simp add: nth_append)
    ultimately show ?thesis using ri i cap by (simp add: contains_def)
  qed
  with cap show ?thesis by (simp add: getCapacity_def)
qed


lemma minimalAttrLoop_Inr_capacities:
  "minimalAttrLoop r xs best = Inr res \<Longrightarrow>
     \<forall>a\<in>set xs. getCapacity r \<le> getCapacity (getLoweredParameterIndices a)"
  by (induction xs arbitrary: best)
     (auto simp: Let_def extendingCapacity_def split: sum.splits if_splits)

subsection \<open>Correctness of the minimal cover\<close>

text \<open>
  C1. When \<^verbatim>\<open>getMinimalASTDifferentiableAttr\<close> returns an attribute for a request \<open>r\<close>, the
  attribute is one of the declaration's, the returned indices are its lowered parameter
  indices, they are a superset of \<open>r\<close> extended to their capacity (every member of \<open>r\<close> is a
  member of them), and no attribute of the declaration that covers \<open>r\<close> has strictly fewer
  indices.
\<close>

theorem minimal_cover_correct:
  assumes "getMinimalASTDifferentiableAttr original r = Inr (Some (a, idx))"
  shows "a \<in> set (getDifferentiableAttrs original) \<and>
         idx = getLoweredParameterIndices a \<and>
         (\<exists>extended. extendingCapacity r (getCapacity idx) = Inr extended \<and>
                     isSupersetOf idx extended = Inr True) \<and>
         (\<forall>i. contains r i \<longrightarrow> contains idx i) \<and>
         (\<forall>b\<in>set (getDifferentiableAttrs original). coversRequest b r \<longrightarrow>
            getNumIndices idx \<le> getNumIndices (getLoweredParameterIndices b))"
proof -
  let ?xs = "getDifferentiableAttrs original"
  from assms have run: "minimalAttrLoop r ?xs None = Inr (Some (a, idx))"
    by (simp add: getMinimalASTDifferentiableAttr_def)
  from minimalAttrLoop_char [OF run]
  obtain pre post where split: "?xs = pre @ a # post"
    and idx: "idx = getLoweredParameterIndices a"
    and cov: "coversRequest a r"
    and before: "\<forall>x\<in>set pre. coversRequest x r \<longrightarrow>
            getNumIndices (getLoweredParameterIndices a) < getNumIndices (getLoweredParameterIndices x)"
    and after: "\<forall>x\<in>set post. coversRequest x r \<longrightarrow>
            getNumIndices (getLoweredParameterIndices a) \<le> getNumIndices (getLoweredParameterIndices x)"
    by auto
  have mem: "a \<in> set ?xs" using split by simp
  have sup: "\<exists>extended. extendingCapacity r (getCapacity idx) = Inr extended \<and>
                     isSupersetOf idx extended = Inr True"
    using cov idx by (auto simp: coversRequest_def split: sum.splits)
  have members: "\<forall>i. contains r i \<longrightarrow> contains idx i"
    using coversRequest_members [OF cov] idx by simp
  have least: "getNumIndices idx \<le> getNumIndices (getLoweredParameterIndices b)"
    if "b \<in> set ?xs" "coversRequest b r" for b
  proof -
    from that(1) split have "b \<in> set pre \<or> b = a \<or> b \<in> set post" by auto
    then show ?thesis using before after that(2) idx by (auto simp: less_imp_le)
  qed
  from mem idx sup members least show ?thesis by blast
qed


text \<open>
  The theorem at the declaration with the attributes \<open>{0,1}\<close> and \<open>{0}\<close> of capacity 2 and the
  request \<open>{0}\<close> of capacity 2: the search returns the second attribute.
\<close>

theorem minimal_cover_correct_witness:
  "getMinimalASTDifferentiableAttr
     \<lparr>getDifferentiableAttrs =
        [\<lparr>getLoweredParameterIndices = [True, True], getDerivativeGenericSignature = 1\<rparr>,
         \<lparr>getLoweredParameterIndices = [True, False], getDerivativeGenericSignature = 2\<rparr>]\<rparr>
     [True, False]
   = Inr (Some (\<lparr>getLoweredParameterIndices = [True, False], getDerivativeGenericSignature = 2\<rparr>,
                [True, False])) \<and>
   isSupersetOf [True, False] [True, False] = Inr True \<and>
   getNumIndices [True, False] \<le> getNumIndices [True, True]"
proof -
  let ?A1 = "\<lparr>getLoweredParameterIndices = [True, True], getDerivativeGenericSignature = 1\<rparr>"
  let ?A2 = "\<lparr>getLoweredParameterIndices = [True, False], getDerivativeGenericSignature = 2\<rparr>"
  have run: "getMinimalASTDifferentiableAttr \<lparr>getDifferentiableAttrs = [?A1, ?A2]\<rparr> [True, False]
             = Inr (Some (?A2, [True, False]))"
    by (simp add: getMinimalASTDifferentiableAttr_def extendingCapacity_def isSupersetOf_def
          getCapacity_def getNumIndices_def Let_def)
  have cov: "coversRequest ?A1 [True, False]"
    by (simp add: coversRequest_def extendingCapacity_def isSupersetOf_def getCapacity_def)
  from minimal_cover_correct [OF run] cov
  have "getNumIndices [True, False] \<le> getNumIndices (getLoweredParameterIndices ?A1)"
    by simp
  moreover from minimal_cover_correct [OF run]
  have "isSupersetOf [True, False] [True, False] = Inr True"
    by (auto simp: extendingCapacity_def getCapacity_def)
  ultimately show ?thesis using run by simp
qed

subsection \<open>The tie-break\<close>




subsection \<open>The capacity extension\<close>

text \<open>
  C3 as stated does not hold. An attribute of capacity 1 before an attribute of capacity 2,
  and a request of capacity 2: the search does not skip the first attribute. It extends the request to capacity 1, which
  fails, and the failure is the result of the search. Without the first attribute the search
  returns the second.
\<close>

theorem smaller_capacity_skipped_counterexample:
  "extendingCapacity [True, False]
     (getCapacity (getLoweredParameterIndices
        \<lparr>getLoweredParameterIndices = [True], getDerivativeGenericSignature = 1\<rparr>))
   = Inl ShrinkingCapacity \<and>
   getMinimalASTDifferentiableAttr
     \<lparr>getDifferentiableAttrs =
        [\<lparr>getLoweredParameterIndices = [True], getDerivativeGenericSignature = 1\<rparr>,
         \<lparr>getLoweredParameterIndices = [True, False], getDerivativeGenericSignature = 2\<rparr>]\<rparr>
     [True, False]
   = Inl ShrinkingCapacity \<and>
   getMinimalASTDifferentiableAttr
     \<lparr>getDifferentiableAttrs =
        [\<lparr>getLoweredParameterIndices = [True, False], getDerivativeGenericSignature = 2\<rparr>]\<rparr>
     [True, False]
   = Inr (Some (\<lparr>getLoweredParameterIndices = [True, False],
                  getDerivativeGenericSignature = 2\<rparr>, [True, False]))"
  by (simp add: getMinimalASTDifferentiableAttr_def extendingCapacity_def isSupersetOf_def
        getCapacity_def Let_def)

text \<open>
  C3, amended. The search extends the request to the capacity of every attribute it visits,
  without a check of the capacities. When the request's capacity is at most the capacity of
  every attribute, no extension shrinks and the search returns; otherwise the search reaches
  an attribute of smaller capacity, the extension to it fails, and that failure is the result.
\<close>

theorem extension_without_capacity_check:
  "if \<forall>a\<in>set (getDifferentiableAttrs original).
        getCapacity r \<le> getCapacity (getLoweredParameterIndices a)
   then \<exists>res. getMinimalASTDifferentiableAttr original r = Inr res
   else getMinimalASTDifferentiableAttr original r = Inl ShrinkingCapacity"
proof (cases "\<forall>a\<in>set (getDifferentiableAttrs original).
        getCapacity r \<le> getCapacity (getLoweredParameterIndices a)")
  case True
  then show ?thesis
    using minimalAttrLoop_returns [of "getDifferentiableAttrs original" r None]
    by (simp add: getMinimalASTDifferentiableAttr_def)
next
  case False
  have "getMinimalASTDifferentiableAttr original r = Inl ShrinkingCapacity"
  proof (cases "getMinimalASTDifferentiableAttr original r")
    case (Inl f)
    then show ?thesis
      using minimalAttrLoop_fault [of r "getDifferentiableAttrs original" None f]
      by (simp add: getMinimalASTDifferentiableAttr_def)
  next
    case (Inr res)
    then have run: "minimalAttrLoop r (getDifferentiableAttrs original) None = Inr res"
      by (simp add: getMinimalASTDifferentiableAttr_def)
    have "\<forall>a\<in>set (getDifferentiableAttrs original).
        getCapacity r \<le> getCapacity (getLoweredParameterIndices a)"
      using run by (rule minimalAttrLoop_Inr_capacities)
    with False show ?thesis by simp
  qed
  with False show ?thesis by simp
qed

text \<open>
  The theorem at both kinds of declaration: one whose attributes have the request's capacity,
  and one with an attribute of smaller capacity.
\<close>

theorem extension_without_capacity_check_witness:
  "(\<exists>res. getMinimalASTDifferentiableAttr
      \<lparr>getDifferentiableAttrs =
         [\<lparr>getLoweredParameterIndices = [True, True], getDerivativeGenericSignature = 1\<rparr>,
          \<lparr>getLoweredParameterIndices = [False, True], getDerivativeGenericSignature = 2\<rparr>]\<rparr>
      [True, False] = Inr res) \<and>
   getMinimalASTDifferentiableAttr
      \<lparr>getDifferentiableAttrs =
         [\<lparr>getLoweredParameterIndices = [True, True], getDerivativeGenericSignature = 1\<rparr>,
          \<lparr>getLoweredParameterIndices = [True], getDerivativeGenericSignature = 2\<rparr>]\<rparr>
      [True, False] = Inl ShrinkingCapacity"
  using
    extension_without_capacity_check
      [of "\<lparr>getDifferentiableAttrs =
         [\<lparr>getLoweredParameterIndices = [True, True], getDerivativeGenericSignature = 1\<rparr>,
          \<lparr>getLoweredParameterIndices = [False, True], getDerivativeGenericSignature = 2\<rparr>]\<rparr>"
          "[True, False]"]
    extension_without_capacity_check
      [of "\<lparr>getDifferentiableAttrs =
         [\<lparr>getLoweredParameterIndices = [True, True], getDerivativeGenericSignature = 1\<rparr>,
          \<lparr>getLoweredParameterIndices = [True], getDerivativeGenericSignature = 2\<rparr>]\<rparr>"
          "[True, False]"]
  by (simp add: getCapacity_def)

section \<open>The registry\<close>

lemma lookUp_Some:
  assumes "lookUpDifferentiabilityWitness module key = Some w"
  shows "w < length (differentiabilityWitnesses module) \<and>
         getKey (differentiabilityWitnesses module ! w) = key \<and>
         (\<forall>v<w. getKey (differentiabilityWitnesses module ! v) \<noteq> key)"
  using assms
  by (auto simp: lookUpDifferentiabilityWitness_def find_Some_iff)

lemma lookUp_None:
  "lookUpDifferentiabilityWitness module key = None \<longleftrightarrow>
     (\<forall>w<length (differentiabilityWitnesses module).
        getKey (differentiabilityWitnesses module ! w) \<noteq> key)"
  by (auto simp: lookUpDifferentiabilityWitness_def find_None_iff)

lemma lookUp_first:
  assumes "w < length (differentiabilityWitnesses module)"
    and "getKey (differentiabilityWitnesses module ! w) = key"
  shows "\<exists>w'\<le>w. lookUpDifferentiabilityWitness module key = Some w'"
proof (cases "lookUpDifferentiabilityWitness module key")
  case None
  with assms show ?thesis by (simp add: lookUp_None)
next
  case (Some w')
  from lookUp_Some [OF Some] assms have "\<not> w < w'" by auto
  with Some show ?thesis by auto
qed

lemma lookUp_Some_iff:
  "lookUpDifferentiabilityWitness module key = Some w \<longleftrightarrow>
     w < length (differentiabilityWitnesses module) \<and>
     getKey (differentiabilityWitnesses module ! w) = key \<and>
     (\<forall>v<w. getKey (differentiabilityWitnesses module ! v) \<noteq> key)"
proof
  assume "lookUpDifferentiabilityWitness module key = Some w"
  then show "w < length (differentiabilityWitnesses module) \<and>
     getKey (differentiabilityWitnesses module ! w) = key \<and>
     (\<forall>v<w. getKey (differentiabilityWitnesses module ! v) \<noteq> key)"
    by (rule lookUp_Some)
next
  assume first: "w < length (differentiabilityWitnesses module) \<and>
     getKey (differentiabilityWitnesses module ! w) = key \<and>
     (\<forall>v<w. getKey (differentiabilityWitnesses module ! v) \<noteq> key)"
  then obtain w' where le: "w' \<le> w"
    and found: "lookUpDifferentiabilityWitness module key = Some w'"
    using lookUp_first by blast
  from lookUp_Some [OF found] first have "\<not> w' < w" by auto
  with le found show "lookUpDifferentiabilityWitness module key = Some w" by simp
qed

lemma lookUp_after_create:
  assumes miss: "lookUpDifferentiabilityWitness module (getName original, cfg) = None"
    and cfg: "cfg = \<lparr>parameterIndices = p, resultIndices = r, derivativeGenericSignature = g\<rparr>"
    and create: "createDeclaration module linkage original p r g = (w, module')"
  shows "lookUpDifferentiabilityWitness module' (getName original, cfg) = Some w"
proof -
  let ?ws = "differentiabilityWitnesses module"
  let ?new = "\<lparr>getLinkage = linkage, getOriginalFunction = getName original,
               getConfig = cfg, isDeclaration = True\<rparr>"
  from create cfg have w: "w = length ?ws"
    and ws': "differentiabilityWitnesses module' = ?ws @ [?new]"
    by (auto simp: createDeclaration_def)
  have old: "\<forall>v<length ?ws. getKey ((?ws @ [?new]) ! v) \<noteq> (getName original, cfg)"
    using miss by (simp add: lookUp_None nth_append)
  have new: "getKey ((?ws @ [?new]) ! length ?ws) = (getName original, cfg)"
    by (simp add: getKey_def)
  show ?thesis
    unfolding lookUp_Some_iff ws' w using old new by simp
qed


section \<open>Get or create\<close>

subsection \<open>The paths of the function\<close>

text \<open>The definitions that a call on concrete inputs unfolds.\<close>

lemmas eval_defs =
  getOrCreateMinimalASTDifferentiabilityWitness_def getMinimalASTDifferentiableAttr_def
  findAbstractFunctionDecl_def lookUpDifferentiabilityWitness_def createDeclaration_def
  extendingCapacity_def isSupersetOf_def getCapacity_def getNumIndices_def contains_def
  getKey_def Let_def

lemma getMinimal_Some:
  assumes "getMinimalASTDifferentiableAttr afd p = Inr (Some (attr, idx))"
  shows "attr \<in> set (getDifferentiableAttrs afd) \<and> idx = getLoweredParameterIndices attr"
  using minimalAttrLoop_char [of p "getDifferentiableAttrs afd" None "Some (attr, idx)"] assms
  by (auto simp: getMinimalASTDifferentiableAttr_def)

lemma getMinimal_None:
  assumes "getMinimalASTDifferentiableAttr afd p = Inr None"
  shows "\<forall>a\<in>set (getDifferentiableAttrs afd). \<not> coversRequest a p"
  using minimalAttrLoop_char [of p "getDifferentiableAttrs afd" None None] assms
  by (auto simp: getMinimalASTDifferentiableAttr_def fewerThanMinimal_def)

lemma getMinimal_no_cover:
  assumes caps: "\<forall>a\<in>set (getDifferentiableAttrs afd).
                   getCapacity p \<le> getCapacity (getLoweredParameterIndices a)"
    and none: "\<forall>a\<in>set (getDifferentiableAttrs afd). \<not> coversRequest a p"
  shows "getMinimalASTDifferentiableAttr afd p = Inr None"
proof -
  obtain res where run: "minimalAttrLoop p (getDifferentiableAttrs afd) None = Inr res"
    using minimalAttrLoop_returns [OF caps] by blast
  from minimalAttrLoop_char [OF run] none have "res = None" by auto
  with run show ?thesis by (simp add: getMinimalASTDifferentiableAttr_def)
qed

lemma getOrCreate_resolved:
  assumes gate: "getCapacity r = 1" "contains r 0"
    and afd: "findAbstractFunctionDecl original = Some originalAFD"
    and minimal: "getMinimalASTDifferentiableAttr originalAFD p = Inr (Some (attr, idx))"
  shows "getOrCreateMinimalASTDifferentiabilityWitness module original p r =
           (case lookUpDifferentiabilityWitness module
                   (getName original, minimalConfigOf attr idx r) of
              Some existingWitness \<Rightarrow> Inr (Some existingWitness, module)
            | None \<Rightarrow>
                if \<not> isExternalDeclaration original then Inl DefinitionWithoutWitness
                else Inr (Some (length (differentiabilityWitnesses module)),
                          snd (createDeclaration module PublicExternal original idx r
                                 (getDerivativeGenericSignature attr))))"
  using gate afd minimal
  by (simp add: getOrCreateMinimalASTDifferentiabilityWitness_def minimalConfigOf_def
        createDeclaration_def split: option.splits)

lemma getOrCreate_Some:
  assumes "getOrCreateMinimalASTDifferentiabilityWitness module original p r
           = Inr (Some w, module')"
  shows "getCapacity r = 1 \<and> contains r 0 \<and>
         (\<exists>originalAFD attr idx.
            findAbstractFunctionDecl original = Some originalAFD \<and>
            getMinimalASTDifferentiableAttr originalAFD p = Inr (Some (attr, idx)))"
  using assms
  by (auto simp: getOrCreateMinimalASTDifferentiabilityWitness_def
           split: if_splits option.splits sum.splits)

subsection \<open>The single-result gate\<close>

text \<open>
  C4. When the requested result indices do not have capacity 1 or do not contain index 0,
  \<^verbatim>\<open>getOrCreateMinimalASTDifferentiabilityWitness\<close> returns null and leaves the module as it
  is, whatever the function, its attributes and the module are.
\<close>

theorem single_result_gate:
  assumes "getCapacity resIndices \<noteq> 1 \<or> \<not> contains resIndices 0"
  shows "getOrCreateMinimalASTDifferentiabilityWitness module original paramIndices resIndices
         = Inr (None, module)"
  using assms by (auto simp: getOrCreateMinimalASTDifferentiabilityWitness_def)


text \<open>
  The theorem at result indices of capacity 2, for the function \<open>g\<close>, whose attribute covers
  the request.
\<close>

theorem single_result_gate_witness:
  "getCapacity [True, True] \<noteq> 1 \<and>
   getOrCreateMinimalASTDifferentiabilityWitness emptyModule funG [True, False] [True, True]
   = Inr (None, emptyModule)"
  using single_result_gate [of "[True, True]" emptyModule funG "[True, False]"]
  by (simp add: getCapacity_def)

subsection \<open>Absence\<close>

text \<open>
  C10. Whenever \<^verbatim>\<open>getOrCreateMinimalASTDifferentiabilityWitness\<close> returns null, the module it
  leaves is the module it was given: no witness is created or registered on a path that
  returns null.
\<close>

theorem absent_leaves_registry_unchanged:
  assumes "getOrCreateMinimalASTDifferentiabilityWitness module original paramIndices resIndices
           = Inr (None, module')"
  shows "module' = module"
  using assms
  by (auto simp: getOrCreateMinimalASTDifferentiabilityWitness_def Let_def
           split: if_splits option.splits sum.splits prod.splits)

text \<open>
  The theorem at a module that holds a witness and a request that the attribute of \<open>g\<close> does
  not cover.
\<close>

theorem absent_leaves_registry_unchanged_witness:
  "getOrCreateMinimalASTDifferentiabilityWitness (moduleG 7) funG [False, True] [True]
   = Inr (None, moduleG 7)"
proof -
  have run: "getOrCreateMinimalASTDifferentiabilityWitness (moduleG 7) funG [False, True] [True]
             = Inr (None, moduleG 7)"
    by (simp add: eval_defs)
  from absent_leaves_registry_unchanged [OF run] run show ?thesis by simp
qed

text \<open>
  C9 as stated does not hold. The request \<open>{1}\<close> of capacity 4 is not covered by the attribute
  \<open>{0,2}\<close> of capacity 3 of \<open>g\<close>, and the call does not return null: the search extends the
  request to capacity 3, which fails.
\<close>

theorem not_covering_faults_counterexample:
  "\<not> coversRequest attrG [False, True, False, False] \<and>
   getOrCreateMinimalASTDifferentiabilityWitness emptyModule funG [False, True, False, False] [True]
   = Inl ShrinkingCapacity"
  by (simp add: eval_defs coversRequest_def)

text \<open>
  C9, amended. For a function with no associated function declaration, and for a function
  whose declaration's attributes all have at least the request's capacity and do not cover the
  request (a declaration with no attributes among them),
  \<^verbatim>\<open>getOrCreateMinimalASTDifferentiabilityWitness\<close> returns null as an ordinary result and
  leaves the module as it is.
\<close>

theorem no_declaration_or_no_cover_is_absent:
  assumes "findAbstractFunctionDecl original = None \<or>
           (\<exists>originalAFD. findAbstractFunctionDecl original = Some originalAFD \<and>
              (\<forall>a\<in>set (getDifferentiableAttrs originalAFD).
                 getCapacity paramIndices \<le> getCapacity (getLoweredParameterIndices a) \<and>
                 \<not> coversRequest a paramIndices))"
  shows "getOrCreateMinimalASTDifferentiabilityWitness module original paramIndices resIndices
         = Inr (None, module)"
  using assms
proof (elim disjE exE conjE)
  assume "findAbstractFunctionDecl original = None"
  then show ?thesis by (simp add: getOrCreateMinimalASTDifferentiabilityWitness_def)
next
  fix originalAFD
  assume afd: "findAbstractFunctionDecl original = Some originalAFD"
    and all: "\<forall>a\<in>set (getDifferentiableAttrs originalAFD).
                 getCapacity paramIndices \<le> getCapacity (getLoweredParameterIndices a) \<and>
                 \<not> coversRequest a paramIndices"
  have "getMinimalASTDifferentiableAttr originalAFD paramIndices = Inr None"
    using all by (intro getMinimal_no_cover) auto
  with afd show ?thesis by (simp add: getOrCreateMinimalASTDifferentiabilityWitness_def)
qed

text \<open>
  The theorem at a function with no declaration context, and at \<open>g\<close> with the request \<open>{1}\<close>
  of capacity 2, which its attribute \<open>{0,2}\<close> does not cover.
\<close>

theorem no_declaration_or_no_cover_is_absent_witness:
  "findAbstractFunctionDecl funSynthesized = None \<and>
   getOrCreateMinimalASTDifferentiabilityWitness emptyModule funSynthesized [True, False] [True]
   = Inr (None, emptyModule) \<and>
   getCapacity [False, True] \<le> getCapacity (getLoweredParameterIndices attrG) \<and>
   \<not> coversRequest attrG [False, True] \<and>
   getOrCreateMinimalASTDifferentiabilityWitness emptyModule funG [False, True] [True]
   = Inr (None, emptyModule)"
proof -
  have none: "findAbstractFunctionDecl funSynthesized = None"
    by (simp add: findAbstractFunctionDecl_def)
  have cap: "getCapacity [False, True] \<le> getCapacity (getLoweredParameterIndices attrG)"
    by (simp add: getCapacity_def)
  have nocover: "\<not> coversRequest attrG [False, True]"
    by (simp add: coversRequest_def extendingCapacity_def isSupersetOf_def getCapacity_def)
  have some: "findAbstractFunctionDecl funG = Some \<lparr>getDifferentiableAttrs = [attrG]\<rparr>"
    by (simp add: findAbstractFunctionDecl_def)
  have "getOrCreateMinimalASTDifferentiabilityWitness emptyModule funSynthesized [True, False] [True]
        = Inr (None, emptyModule)"
    using none by (intro no_declaration_or_no_cover_is_absent) simp
  moreover
  have "getOrCreateMinimalASTDifferentiabilityWitness emptyModule funG [False, True] [True]
        = Inr (None, emptyModule)"
    using some cap nocover by (intro no_declaration_or_no_cover_is_absent) simp
  ultimately show ?thesis using none cap nocover by simp
qed

subsection \<open>Existing witnesses\<close>

text \<open>
  C2 as stated does not hold. The module holds a witness of \<open>g\<close> with the minimal
  configuration's parameter and result indices and the derivative generic signature 8; the
  attribute of \<open>g\<close> has the signature 7. The lookup of the source file that compares indices
  only finds the registered witness, but the call does not return it: it creates a second
  witness.
\<close>

theorem existing_witness_ignores_signature_counterexample:
  "getOriginalFunction (witnessG 8) = getName funG \<and>
   getMinimalASTDifferentiableAttr \<lparr>getDifferentiableAttrs = [attrG]\<rparr> [True, False]
   = Inr (Some (attrG, getParameterIndices (witnessG 8))) \<and>
   getResultIndices (witnessG 8) = [True] \<and>
   getExactDifferentiabilityWitness (moduleG 8) funG [True, False, True] [True] = Some 0 \<and>
   getOrCreateMinimalASTDifferentiabilityWitness (moduleG 8) funG [True, False] [True]
   = Inr (Some 1, \<lparr>differentiabilityWitnesses = [witnessG 8, witnessG 7]\<rparr>)"
  by (simp add: eval_defs getExactDifferentiabilityWitness_def
        lookUpDifferentiabilityWitnessesForFunction_def getParameterIndices_def
        getResultIndices_def)

text \<open>
  C2, amended. The existing-witness check looks the module up under the key made of the
  function's name and the whole minimal configuration, derivative generic signature included.
  A registered witness of the function whose parameter and result indices are the minimal
  configuration's is returned exactly when its derivative generic signature is the minimal
  attribute's as well and no witness registered before it has that key.
\<close>

theorem existing_witness_by_full_key:
  assumes gate: "getCapacity r = 1" "contains r 0"
    and afd: "findAbstractFunctionDecl original = Some originalAFD"
    and minimal: "getMinimalASTDifferentiableAttr originalAFD p = Inr (Some (attr, idx))"
    and registered: "w < length (differentiabilityWitnesses module)"
    and name: "getOriginalFunction (differentiabilityWitnesses module ! w) = getName original"
    and params: "getParameterIndices (differentiabilityWitnesses module ! w) = idx"
    and results: "getResultIndices (differentiabilityWitnesses module ! w) = r"
  shows "getOrCreateMinimalASTDifferentiabilityWitness module original p r = Inr (Some w, module)
         \<longleftrightarrow>
         derivativeGenericSignature (getConfig (differentiabilityWitnesses module ! w))
           = getDerivativeGenericSignature attr \<and>
         (\<forall>v<w. getKey (differentiabilityWitnesses module ! v)
                  \<noteq> (getName original, minimalConfigOf attr idx r))"
proof -
  let ?ws = "differentiabilityWitnesses module"
  let ?key = "(getName original, minimalConfigOf attr idx r)"
  have key: "getKey (?ws ! w) = ?key \<longleftrightarrow>
      derivativeGenericSignature (getConfig (?ws ! w)) = getDerivativeGenericSignature attr"
    using name params results
    by (cases "getConfig (?ws ! w)")
       (auto simp: getKey_def minimalConfigOf_def getParameterIndices_def getResultIndices_def)
  have "getOrCreateMinimalASTDifferentiabilityWitness module original p r = Inr (Some w, module)
        \<longleftrightarrow> lookUpDifferentiabilityWitness module ?key = Some w"
    using getOrCreate_resolved [OF gate afd minimal, of module] registered
    by (auto simp: createDeclaration_def split: option.splits if_splits)
  also have "\<dots> \<longleftrightarrow> getKey (?ws ! w) = ?key \<and> (\<forall>v<w. getKey (?ws ! v) \<noteq> ?key)"
    using registered by (simp add: lookUp_Some_iff)
  finally show ?thesis using key by simp
qed

text \<open>
  The theorem at the module that holds the witness of \<open>g\<close> with the attribute's signature.
\<close>

theorem existing_witness_by_full_key_witness:
  "getOrCreateMinimalASTDifferentiabilityWitness (moduleG 7) funG [True, False] [True]
   = Inr (Some 0, moduleG 7)"
proof -
  have gate: "getCapacity [True] = 1" "contains [True] 0"
    by (simp_all add: getCapacity_def contains_def)
  have afd: "findAbstractFunctionDecl funG = Some \<lparr>getDifferentiableAttrs = [attrG]\<rparr>"
    by (simp add: findAbstractFunctionDecl_def)
  have minimal: "getMinimalASTDifferentiableAttr \<lparr>getDifferentiableAttrs = [attrG]\<rparr> [True, False]
                 = Inr (Some (attrG, [True, False, True]))"
    by (simp add: eval_defs)
  have registered: "0 < length (differentiabilityWitnesses (moduleG 7))"
    by simp
  have name: "getOriginalFunction (differentiabilityWitnesses (moduleG 7) ! 0) = getName funG"
    by simp
  have params: "getParameterIndices (differentiabilityWitnesses (moduleG 7) ! 0)
                = [True, False, True]"
    by (simp add: getParameterIndices_def)
  have results: "getResultIndices (differentiabilityWitnesses (moduleG 7) ! 0) = [True]"
    by (simp add: getResultIndices_def)
  from existing_witness_by_full_key [OF gate afd minimal registered name params results]
  show ?thesis by simp
qed

text \<open>
  C5. Two calls in sequence with the same arguments: when the first call returns, the second
  call on the module that the first one left returns the same pointer and leaves the same
  module. A witness that the first call created is found by the lookup of the second.
\<close>

theorem get_or_create_idempotent:
  assumes first: "getOrCreateMinimalASTDifferentiabilityWitness module original p r
                  = Inr (res, module')"
  shows "getOrCreateMinimalASTDifferentiabilityWitness module' original p r
         = Inr (res, module')"
proof (cases res)
  case None
  with first have "module' = module"
    by (auto simp: getOrCreateMinimalASTDifferentiabilityWitness_def Let_def
           split: if_splits option.splits sum.splits prod.splits)
  with first show ?thesis by simp
next
  case (Some w)
  with first have run: "getOrCreateMinimalASTDifferentiabilityWitness module original p r
                        = Inr (Some w, module')"
    by simp
  from getOrCreate_Some [OF run] obtain originalAFD attr idx
    where gate: "getCapacity r = 1" "contains r 0"
      and afd: "findAbstractFunctionDecl original = Some originalAFD"
      and minimal: "getMinimalASTDifferentiableAttr originalAFD p = Inr (Some (attr, idx))"
    by blast
  let ?key = "(getName original, minimalConfigOf attr idx r)"
  note first_call = getOrCreate_resolved [OF gate afd minimal, of module]
  note second_call = getOrCreate_resolved [OF gate afd minimal, of module']
  have "lookUpDifferentiabilityWitness module' ?key = Some w"
  proof (cases "lookUpDifferentiabilityWitness module ?key")
    case (Some existingWitness)
    with run first_call show ?thesis by simp
  next
    case None
    with run first_call
    have ext: "isExternalDeclaration original"
      and created: "createDeclaration module PublicExternal original idx r
                      (getDerivativeGenericSignature attr) = (w, module')"
      by (auto simp: createDeclaration_def split: if_splits)
    show ?thesis
      using None _ created
      by (rule lookUp_after_create) (simp add: minimalConfigOf_def)
  qed
  with second_call Some show ?thesis by simp
qed

text \<open>
  The theorem at \<open>g\<close> and the empty module: the first call creates the witness, the second
  returns it.
\<close>

theorem get_or_create_idempotent_witness:
  "getOrCreateMinimalASTDifferentiabilityWitness emptyModule funG [True, False] [True]
   = Inr (Some 0, moduleG 7) \<and>
   getOrCreateMinimalASTDifferentiabilityWitness (moduleG 7) funG [True, False] [True]
   = Inr (Some 0, moduleG 7)"
proof -
  have first: "getOrCreateMinimalASTDifferentiabilityWitness emptyModule funG [True, False] [True]
               = Inr (Some 0, moduleG 7)"
    by (simp add: eval_defs)
  from first get_or_create_idempotent [OF first] show ?thesis by simp
qed

subsection \<open>Created witnesses\<close>

text \<open>
  C8. When \<^verbatim>\<open>getOrCreateMinimalASTDifferentiabilityWitness\<close> returns a witness and has changed
  the module, the module has one more witness, the returned pointer denotes it, and it is a
  declaration with linkage \<^verbatim>\<open>PublicExternal\<close> for the function, whose configuration has the
  lowered parameter indices of the minimal attribute, the requested result indices and the
  minimal attribute's derivative generic signature.
\<close>

theorem created_witness_configuration:
  assumes run: "getOrCreateMinimalASTDifferentiabilityWitness module original p r
                = Inr (Some w, module')"
    and created: "module' \<noteq> module"
  shows "\<exists>originalAFD minimalAttr minimalParameterIndices.
           findAbstractFunctionDecl original = Some originalAFD \<and>
           getMinimalASTDifferentiableAttr originalAFD p
             = Inr (Some (minimalAttr, minimalParameterIndices)) \<and>
           minimalParameterIndices = getLoweredParameterIndices minimalAttr \<and>
           w = length (differentiabilityWitnesses module) \<and>
           differentiabilityWitnesses module' =
             differentiabilityWitnesses module @
               [\<lparr>getLinkage = PublicExternal,
                 getOriginalFunction = getName original,
                 getConfig =
                   \<lparr>parameterIndices = minimalParameterIndices,
                    resultIndices = r,
                    derivativeGenericSignature = getDerivativeGenericSignature minimalAttr\<rparr>,
                 isDeclaration = True\<rparr>]"
proof -
  from getOrCreate_Some [OF run] obtain originalAFD attr idx
    where gate: "getCapacity r = 1" "contains r 0"
      and afd: "findAbstractFunctionDecl original = Some originalAFD"
      and minimal: "getMinimalASTDifferentiableAttr originalAFD p = Inr (Some (attr, idx))"
    by blast
  from getOrCreate_resolved [OF gate afd minimal, of module] run created
  have "w = length (differentiabilityWitnesses module) \<and>
        module' = snd (createDeclaration module PublicExternal original idx r
                         (getDerivativeGenericSignature attr))"
    by (auto split: option.splits if_splits)
  then have "w = length (differentiabilityWitnesses module) \<and>
           differentiabilityWitnesses module' =
             differentiabilityWitnesses module @
               [\<lparr>getLinkage = PublicExternal,
                 getOriginalFunction = getName original,
                 getConfig =
                   \<lparr>parameterIndices = idx,
                    resultIndices = r,
                    derivativeGenericSignature = getDerivativeGenericSignature attr\<rparr>,
                 isDeclaration = True\<rparr>]"
    by (simp add: createDeclaration_def)
  with afd minimal getMinimal_Some [OF minimal] show ?thesis by blast
qed

text \<open>
  The theorem at the specification's scenario: the request \<open>{0}\<close> of capacity 2 for \<open>g\<close>
  creates a witness with the parameter indices \<open>{0,2}\<close> of the attribute, not the request's.
\<close>

theorem created_witness_configuration_witness:
  "getOrCreateMinimalASTDifferentiabilityWitness emptyModule funG [True, False] [True]
   = Inr (Some 0, moduleG 7) \<and>
   moduleG 7 \<noteq> emptyModule \<and>
   differentiabilityWitnesses (moduleG 7) =
     differentiabilityWitnesses emptyModule @
       [\<lparr>getLinkage = PublicExternal, getOriginalFunction = getName funG,
         getConfig = \<lparr>parameterIndices = getLoweredParameterIndices attrG,
                      resultIndices = [True],
                      derivativeGenericSignature = getDerivativeGenericSignature attrG\<rparr>,
         isDeclaration = True\<rparr>] \<and>
   getLoweredParameterIndices attrG \<noteq> [True, False]"
proof -
  have run: "getOrCreateMinimalASTDifferentiabilityWitness emptyModule funG [True, False] [True]
             = Inr (Some 0, moduleG 7)"
    by (simp add: eval_defs)
  have created: "moduleG 7 \<noteq> emptyModule"
    by simp
  have afd: "findAbstractFunctionDecl funG = Some \<lparr>getDifferentiableAttrs = [attrG]\<rparr>"
    by (simp add: findAbstractFunctionDecl_def)
  have minimal: "getMinimalASTDifferentiableAttr \<lparr>getDifferentiableAttrs = [attrG]\<rparr> [True, False]
                 = Inr (Some (attrG, [True, False, True]))"
    by (simp add: eval_defs)
  from created_witness_configuration [OF run created] afd minimal
  have "differentiabilityWitnesses (moduleG 7) =
     differentiabilityWitnesses emptyModule @
       [\<lparr>getLinkage = PublicExternal, getOriginalFunction = getName funG,
         getConfig = \<lparr>parameterIndices = getLoweredParameterIndices attrG,
                      resultIndices = [True],
                      derivativeGenericSignature = getDerivativeGenericSignature attrG\<rparr>,
         isDeclaration = True\<rparr>]"
    by auto
  with run created show ?thesis by simp
qed

subsection \<open>The assertion\<close>

text \<open>
  C6. When the search has found a minimal attribute and the module has no witness under the
  minimal configuration, a function that is not an external declaration makes the call fail
  its assertion; the call does not return null. When the witnesses of the function's
  definition were registered first, as the assertion's message requires of SILGen, the
  assertion does not fail.
\<close>

theorem definition_without_witness_is_fatal:
  "(getCapacity r = 1 \<and> contains r 0 \<and>
    findAbstractFunctionDecl original = Some originalAFD \<and>
    getMinimalASTDifferentiableAttr originalAFD p = Inr (Some (attr, idx)) \<and>
    lookUpDifferentiabilityWitness module (getName original, minimalConfigOf attr idx r) = None \<and>
    \<not> isExternalDeclaration original
    \<longrightarrow> getOrCreateMinimalASTDifferentiabilityWitness module original p r
          = Inl DefinitionWithoutWitness) \<and>
   (witnessesCreatedForDefinition module original
    \<longrightarrow> getOrCreateMinimalASTDifferentiabilityWitness module original p r
          \<noteq> Inl DefinitionWithoutWitness)"
proof (intro conjI impI)
  assume "getCapacity r = 1 \<and> contains r 0 \<and>
    findAbstractFunctionDecl original = Some originalAFD \<and>
    getMinimalASTDifferentiableAttr originalAFD p = Inr (Some (attr, idx)) \<and>
    lookUpDifferentiabilityWitness module (getName original, minimalConfigOf attr idx r) = None \<and>
    \<not> isExternalDeclaration original"
  then show "getOrCreateMinimalASTDifferentiabilityWitness module original p r
             = Inl DefinitionWithoutWitness"
    using getOrCreate_resolved [of r original originalAFD p attr idx module] by simp
next
  assume eager: "witnessesCreatedForDefinition module original"
  show "getOrCreateMinimalASTDifferentiabilityWitness module original p r
        \<noteq> Inl DefinitionWithoutWitness"
  proof
    assume fatal: "getOrCreateMinimalASTDifferentiabilityWitness module original p r
                   = Inl DefinitionWithoutWitness"
    then have gate: "getCapacity r = 1" "contains r 0"
      by (auto simp: getOrCreateMinimalASTDifferentiabilityWitness_def split: if_splits)
    then have r: "r = [True]"
      by (cases r) (auto simp: getCapacity_def contains_def)
    from fatal gate obtain originalAFD
      where afd: "findAbstractFunctionDecl original = Some originalAFD"
      by (auto simp: getOrCreateMinimalASTDifferentiabilityWitness_def split: option.splits)
    have "getMinimalASTDifferentiableAttr originalAFD p \<noteq> Inl DefinitionWithoutWitness"
      using minimalAttrLoop_fault [of p "getDifferentiableAttrs originalAFD" None DefinitionWithoutWitness]
      by (auto simp: getMinimalASTDifferentiableAttr_def)
    with fatal gate afd obtain attr idx
      where minimal: "getMinimalASTDifferentiableAttr originalAFD p = Inr (Some (attr, idx))"
      by (auto simp: getOrCreateMinimalASTDifferentiabilityWitness_def
               split: sum.splits option.splits)
    from fatal getOrCreate_resolved [OF gate afd minimal, of module]
    have miss: "lookUpDifferentiabilityWitness module
                  (getName original, minimalConfigOf attr idx r) = None"
      and defined: "\<not> isExternalDeclaration original"
      by (auto split: option.splits if_splits)
    from getMinimal_Some [OF minimal]
    have mem: "attr \<in> set (getDifferentiableAttrs originalAFD)"
      and idx: "idx = getLoweredParameterIndices attr"
      by simp_all
    from eager defined afd mem
    have "lookUpDifferentiabilityWitness module
            (getName original,
             \<lparr>parameterIndices = getLoweredParameterIndices attr, resultIndices = [True],
              derivativeGenericSignature = getDerivativeGenericSignature attr\<rparr>) \<noteq> None"
      by (simp add: witnessesCreatedForDefinition_def list_all_iff)
    with miss idx r show False by (simp add: minimalConfigOf_def)
  qed
qed

text \<open>
  The theorem at \<open>g\<close> with a body: with the empty module the assertion fails; with the
  module that holds the witness of its attribute it does not.
\<close>

theorem definition_without_witness_is_fatal_witness:
  "getOrCreateMinimalASTDifferentiabilityWitness emptyModule funGDefined [True, False] [True]
   = Inl DefinitionWithoutWitness \<and>
   witnessesCreatedForDefinition (moduleG 7) funGDefined \<and>
   getOrCreateMinimalASTDifferentiabilityWitness (moduleG 7) funGDefined [True, False] [True]
   \<noteq> Inl DefinitionWithoutWitness"
proof -
  have gate: "getCapacity [True] = 1 \<and> contains [True] 0"
    by (simp add: getCapacity_def contains_def)
  have afd: "findAbstractFunctionDecl funGDefined = Some \<lparr>getDifferentiableAttrs = [attrG]\<rparr>"
    by (simp add: findAbstractFunctionDecl_def)
  have minimal: "getMinimalASTDifferentiableAttr \<lparr>getDifferentiableAttrs = [attrG]\<rparr> [True, False]
                 = Inr (Some (attrG, [True, False, True]))"
    by (simp add: eval_defs)
  have miss: "lookUpDifferentiabilityWitness emptyModule
                (getName funGDefined, minimalConfigOf attrG [True, False, True] [True]) = None"
    by (simp add: lookUpDifferentiabilityWitness_def)
  have defined: "\<not> isExternalDeclaration funGDefined"
    by simp
  have eager: "witnessesCreatedForDefinition (moduleG 7) funGDefined"
    by (simp add: witnessesCreatedForDefinition_def findAbstractFunctionDecl_def
          lookUpDifferentiabilityWitness_def getKey_def)
  note fatal = definition_without_witness_is_fatal
    [of "[True]" funGDefined "\<lparr>getDifferentiableAttrs = [attrG]\<rparr>" "[True, False]" attrG
        "[True, False, True]" emptyModule]
  note safe = definition_without_witness_is_fatal
    [of "[True]" funGDefined "\<lparr>getDifferentiableAttrs = [attrG]\<rparr>" "[True, False]" attrG
        "[True, False, True]" "moduleG 7"]
  have "getOrCreateMinimalASTDifferentiabilityWitness emptyModule funGDefined [True, False] [True]
        = Inl DefinitionWithoutWitness"
    using fatal gate afd minimal miss defined by blast
  moreover
  have "getOrCreateMinimalASTDifferentiabilityWitness (moduleG 7) funGDefined [True, False] [True]
        \<noteq> Inl DefinitionWithoutWitness"
    using safe eager by blast
  ultimately show ?thesis using eager by simp
qed

end
